theory Spec2Isabelle
  imports Complex_Main "HOL-Library.Word" "HOL-Library.Sublist" "HOL-Library.AList"
begin

section \<open>Data model of the command agent (main.go)\<close>

text \<open>
  Go's \<^verbatim>\<open>int\<close> is 64 bits wide on every macOS target, and \<^verbatim>\<open>time.Duration\<close> is an
  \<^verbatim>\<open>int64\<close> count of nanoseconds. Both are 64-bit words here: \<open>*\<close> wraps around as
  Go's signed multiplication does, and \<open>sint\<close> reads the two's complement value.
\<close>

type_synonym duration = "64 word"

definition Second :: duration where
  "Second = 1000000000"

record CommandRequest =
  Command :: string
  Args :: "string list"
  Timeout :: "64 word"

record CommandResponse =
  Success :: bool
  Output :: string
  Error :: string
  ExitCode :: int
  Duration :: string
  Timestamp :: string

record Agent =
  allowedCommands :: "string \<rightharpoonup> bool"

definition NewAgent :: Agent where
  "NewAgent = \<lparr>allowedCommands = map_of
     [(''ls'', True), (''pwd'', True), (''whoami'', True), (''date'', True), (''uptime'', True),
      (''ps'', True), (''top'', True), (''df'', True), (''du'', True), (''find'', True),
      (''grep'', True), (''cat'', True), (''head'', True), (''tail'', True), (''wc'', True),
      (''sort'', True), (''uniq'', True), (''echo'', True), (''mkdir'', True), (''rmdir'', True),
      (''cp'', True), (''mv'', True), (''rm'', True), (''chmod'', True), (''chown'', True),
      (''file'', True), (''stat'', True), (''which'', True), (''whereis'', True),
      (''system_profiler'', True), (''sw_vers'', True), (''defaults'', True),
      (''launchctl'', True), (''netstat'', True), (''lsof'', True), (''ifconfig'', True),
      (''ping'', True), (''nslookup'', True), (''dig'', True), (''curl'', True), (''wget'', True)]\<rparr>"

text \<open>Reading a Go map at a key it does not hold yields the zero value, here \<open>False\<close>.\<close>

definition isCommandAllowed :: "Agent \<Rightarrow> string \<Rightarrow> bool" where
  "isCommandAllowed a command =
     (case allowedCommands a command of None \<Rightarrow> False | Some b \<Rightarrow> b)"

section \<open>Data model of the backend integration (free\_ai\_integration.go)\<close>

text \<open>
  The field \<^verbatim>\<open>Error\<close> of \<^verbatim>\<open>FreeAIResponse\<close> is \<open>Error_ai\<close> here, and the field \<^verbatim>\<open>Error\<close> of
  the response envelope is \<open>Error_api\<close>, to keep them apart from the field \<open>Error\<close> of
  \<open>CommandResponse\<close>. A \<^verbatim>\<open>nil\<close> slice and an empty slice are both the empty list.
\<close>

record FreeAIResponse =
  Thoughts :: string
  Commands :: "CommandRequest list"
  Explanation :: string
  Confidence :: real
  Results :: "CommandResponse list"
  Error_ai :: string

record FreeAIAgent =
  agent :: Agent
  serviceType :: string
  baseURL :: string
  apiKey :: string
  model :: string

definition NewFreeAIAgent :: "string \<Rightarrow> string \<Rightarrow> string \<Rightarrow> string \<Rightarrow> FreeAIAgent" where
  "NewFreeAIAgent st url key m =
     \<lparr>agent = NewAgent, serviceType = st, baseURL = url, apiKey = key, model = m\<rparr>"

definition NewOllamaAgent :: "string \<Rightarrow> FreeAIAgent" where
  "NewOllamaAgent m = NewFreeAIAgent ''ollama'' ''http://localhost:11434'' [] m"

definition NewHuggingFaceAgent :: "string \<Rightarrow> string \<Rightarrow> FreeAIAgent" where
  "NewHuggingFaceAgent key m =
     NewFreeAIAgent ''huggingface'' ''https://api-inference.huggingface.co'' key m"

definition NewLocalAgent :: "string \<Rightarrow> string \<Rightarrow> FreeAIAgent" where
  "NewLocalAgent url m = NewFreeAIAgent ''local'' url [] m"

text \<open>The request bodies are \<^verbatim>\<open>map[string]interface{}\<close> literals; their values are these.\<close>

datatype jv = JString string | JBool bool | JInt int | JFloat real | JObject "(string \<times> jv) list"

text \<open>
  The envelope both \<^verbatim>\<open>callOllama\<close> and \<^verbatim>\<open>callLocalAPI\<close> decode the HTTP body into:
  \<^verbatim>\<open>struct { Response string; Error string }\<close>.
\<close>

record apiResp =
  Response :: string
  Error_api :: string

subsection \<open>net/http as the program uses it\<close>

record http_client =
  client_Timeout :: duration

record http_request =
  rq_method :: string
  rq_url :: string
  rq_header :: "(string \<times> string) list"
  rq_body :: string

text \<open>
  A response as the program reads it: the status code, which the program never looks at,
  and what \<^verbatim>\<open>io.ReadAll(resp.Body)\<close> returns (\<open>Inl\<close> the read error).
\<close>

record http_response =
  StatusCode :: int
  Body :: "string + string"

section \<open>The host: operating system, network, clock and the Go library\<close>

text \<open>
  Every call that leaves the program is written to a trace, in the order the calls are
  made. The trace is the only state the model threads through the program.
\<close>

datatype event =
    Probe string "string list"
  | Http http_client http_request
  | ParsePlan string
  | Spawn string "string list" duration

text \<open>
  What \<^verbatim>\<open>cmd.CombinedOutput()\<close> leaves behind: the captured output, the error it returns
  (\<open>None\<close> for \<^verbatim>\<open>nil\<close>, otherwise \<^verbatim>\<open>err.Error()\<close>) and \<^verbatim>\<open>cmd.ProcessState\<close>, which stays
  \<^verbatim>\<open>nil\<close> (\<open>None\<close>) when the process never started and otherwise holds the exit code.
\<close>

record proc_result =
  pr_output :: string
  pr_err :: "string option"
  pr_state :: "int option"

text \<open>
  The behaviour of everything outside the repository is a parameter: each answer of the
  host may depend on the whole history of calls made so far, and every call to the host is
  taken to return. The decoders stand for \<^verbatim>\<open>json.Unmarshal\<close> at the three target types the
  program uses (\<open>Inl\<close> its error). The two fixed texts of the prompt (\<^verbatim>\<open>SystemPrompt\<close> and
  the response-format instructions) are parameters too: no property below depends on
  their wording.
\<close>

record env =
  GOOS :: string
  GOARCH :: string
  runtime_Version :: string
  cmd_Output :: "event list \<Rightarrow> string \<Rightarrow> string list \<Rightarrow> string + string"
  TrimSpace :: "string \<Rightarrow> string"
  SystemPrompt :: string
  ResponseFormat :: string
  json_Marshal :: "jv \<Rightarrow> string + string"
  NewRequest_err :: "string \<Rightarrow> string \<Rightarrow> string option"
  RoundTrip :: "event list \<Rightarrow> http_client \<Rightarrow> http_request \<Rightarrow> string + http_response"
  Unmarshal_apiResp :: "string \<Rightarrow> string + apiResp"
  Unmarshal_hfResp :: "string \<Rightarrow> string + string list"
  Unmarshal_FreeAIResponse :: "string \<Rightarrow> string + FreeAIResponse"
  CombinedOutput :: "event list \<Rightarrow> string \<Rightarrow> string list \<Rightarrow> duration \<Rightarrow> proc_result"
  time_Since :: "event list \<Rightarrow> string"
  time_Now :: "event list \<Rightarrow> string"

text \<open>
  \<^verbatim>\<open>(*os.ProcessState).ExitCode\<close> is defined on the \<^verbatim>\<open>nil\<close> receiver: it returns \<open>-1\<close> for a
  process that has not started.
\<close>

definition ProcessState_ExitCode :: "int option \<Rightarrow> int" where
  "ProcessState_ExitCode p = (case p of None \<Rightarrow> - 1 | Some c \<Rightarrow> c)"

section \<open>The command executor (main.go)\<close>

definition ExecuteCommand ::
  "env \<Rightarrow> Agent \<Rightarrow> CommandRequest \<Rightarrow> event list \<Rightarrow> CommandResponse \<times> event list" where
  "ExecuteCommand h a req w =
     (if \<not> isCommandAllowed a (Command req) then
        (\<lparr>Success = False,
          Output = [],
          Error = ''Command '' @ [CHR 0x27] @ Command req @ [CHR 0x27]
                    @ '' is not allowed for security reasons'',
          ExitCode = - 1,
          Duration = time_Since h w,
          Timestamp = time_Now h w\<rparr>, w)
      else
        let timeout = (if 0 < sint (Timeout req) then Timeout req * Second else 30 * Second);
            args = (if length (Args req) > 0 then Args req else []);
            r = CombinedOutput h w (Command req) args timeout;
            w' = w @ [Spawn (Command req) args timeout];
            response = \<lparr>Success = (pr_err r = None),
                        Output = pr_output r,
                        Error = [],
                        ExitCode = ProcessState_ExitCode (pr_state r),
                        Duration = time_Since h w',
                        Timestamp = time_Now h w'\<rparr>
        in (case pr_err r of
              None \<Rightarrow> response
            | Some e \<Rightarrow> response\<lparr>Error := e\<rparr>, w'))"

section \<open>The backend calls (free\_ai\_integration.go)\<close>

text \<open>
  \<^verbatim>\<open>http.NewRequest\<close> fails on a method or URL it cannot parse; \<^verbatim>\<open>Header.Set\<close> replaces
  the value stored under a key; \<^verbatim>\<open>(*Client).Do\<close> sends the request under the client's
  \<^verbatim>\<open>Timeout\<close>, where zero means no timeout; \<^verbatim>\<open>http.Post\<close> is \<^verbatim>\<open>DefaultClient.Post\<close>, and
  \<^verbatim>\<open>DefaultClient\<close> is the zero \<^verbatim>\<open>Client\<close>.
\<close>

definition NewRequest :: "env \<Rightarrow> string \<Rightarrow> string \<Rightarrow> string \<Rightarrow> string + http_request" where
  "NewRequest h m url body =
     (case NewRequest_err h m url of
        Some err \<Rightarrow> Inl err
      | None \<Rightarrow> Inr \<lparr>rq_method = m, rq_url = url, rq_header = [], rq_body = body\<rparr>)"

definition Header_Set :: "string \<Rightarrow> string \<Rightarrow> http_request \<Rightarrow> http_request" where
  "Header_Set k v rq = rq\<lparr>rq_header := AList.update k v (rq_header rq)\<rparr>"

definition client_Do ::
  "env \<Rightarrow> http_client \<Rightarrow> http_request \<Rightarrow> event list \<Rightarrow> (string + http_response) \<times> event list" where
  "client_Do h c rq w = (RoundTrip h w c rq, w @ [Http c rq])"

definition DefaultClient :: http_client where
  "DefaultClient = \<lparr>client_Timeout = 0\<rparr>"

definition http_Post ::
  "env \<Rightarrow> string \<Rightarrow> string \<Rightarrow> string \<Rightarrow> event list \<Rightarrow> (string + http_response) \<times> event list" where
  "http_Post h url contentType body w =
     (case NewRequest h ''POST'' url body of
        Inl err \<Rightarrow> (Inl err, w)
      | Inr rq \<Rightarrow> client_Do h DefaultClient (Header_Set ''Content-Type'' contentType rq) w)"

text \<open>
  The three backend calls end in the same block (lines 162--171, 222--231 and 271--280):
  decode the generated text into a \<^verbatim>\<open>FreeAIResponse\<close>, and on a decoding error replace the
  response by a fixed fallback that keeps the text.
\<close>

definition unmarshal_aiResponse :: "env \<Rightarrow> string \<Rightarrow> FreeAIResponse" where
  "unmarshal_aiResponse h raw =
     (case Unmarshal_FreeAIResponse h raw of
        Inl err \<Rightarrow>
          \<lparr>Thoughts = ''Failed to parse AI response as JSON'',
           Commands = [],
           Explanation = raw,
           Confidence = 0,
           Results = [],
           Error_ai = ''Invalid JSON response from AI''\<rparr>
      | Inr aiResponse \<Rightarrow> aiResponse)"

definition ollama_requestBody :: "FreeAIAgent \<Rightarrow> string \<Rightarrow> jv" where
  "ollama_requestBody fa prompt =
     JObject [(''model'', JString (model fa)), (''prompt'', JString prompt),
              (''stream'', JBool False)]"

definition callOllama ::
  "env \<Rightarrow> FreeAIAgent \<Rightarrow> string \<Rightarrow> event list \<Rightarrow> (string + FreeAIResponse) \<times> event list" where
  "callOllama h fa prompt w =
     (case json_Marshal h (ollama_requestBody fa prompt) of
        Inl err \<Rightarrow> (Inl err, w)
      | Inr jsonData \<Rightarrow>
         (case http_Post h (baseURL fa @ ''/api/generate'') ''application/json'' jsonData w of
            (Inl err, w1) \<Rightarrow> (Inl (''Ollama API error: '' @ err), w1)
          | (Inr resp, w1) \<Rightarrow>
             (case Body resp of
                Inl err \<Rightarrow> (Inl err, w1)
              | Inr body \<Rightarrow>
                 (case Unmarshal_apiResp h body of
                    Inl err \<Rightarrow> (Inl err, w1)
                  | Inr ollamaResp \<Rightarrow>
                      if Error_api ollamaResp \<noteq> [] then
                        (Inl (''Ollama error: '' @ Error_api ollamaResp), w1)
                      else
                        (Inr (unmarshal_aiResponse h (Response ollamaResp)),
                         w1 @ [ParsePlan (Response ollamaResp)])))))"

definition hf_requestBody :: "string \<Rightarrow> jv" where
  "hf_requestBody prompt =
     JObject [(''inputs'', JString prompt),
              (''parameters'', JObject [(''max_new_tokens'', JInt 1000),
                                        (''temperature'', JFloat (1 / 10))])]"

definition callHuggingFace ::
  "env \<Rightarrow> FreeAIAgent \<Rightarrow> string \<Rightarrow> event list \<Rightarrow> (string + FreeAIResponse) \<times> event list" where
  "callHuggingFace h fa prompt w =
     (case json_Marshal h (hf_requestBody prompt) of
        Inl err \<Rightarrow> (Inl err, w)
      | Inr jsonData \<Rightarrow>
         (case NewRequest h ''POST'' (baseURL fa @ ''/models/'' @ model fa) jsonData of
            Inl err \<Rightarrow> (Inl err, w)
          | Inr req0 \<Rightarrow>
             (let req = Header_Set ''Content-Type'' ''application/json''
                          (Header_Set ''Authorization'' (''Bearer '' @ apiKey fa) req0);
                  client = \<lparr>client_Timeout = 30 * Second\<rparr>
              in case client_Do h client req w of
                   (Inl err, w1) \<Rightarrow> (Inl (''Hugging Face API error: '' @ err), w1)
                 | (Inr resp, w1) \<Rightarrow>
                    (case Body resp of
                       Inl err \<Rightarrow> (Inl err, w1)
                     | Inr body \<Rightarrow>
                        (case Unmarshal_hfResp h body of
                           Inl err \<Rightarrow> (Inl err, w1)
                         | Inr hfResp \<Rightarrow>
                            (case hfResp of
                               [] \<Rightarrow> (Inl ''no response from Hugging Face'', w1)
                             | generatedText # _ \<Rightarrow>
                                 (Inr (unmarshal_aiResponse h generatedText),
                                  w1 @ [ParsePlan generatedText])))))))"

definition local_requestBody :: "FreeAIAgent \<Rightarrow> string \<Rightarrow> jv" where
  "local_requestBody fa prompt =
     JObject [(''model'', JString (model fa)), (''prompt'', JString prompt)]"

definition callLocalAPI ::
  "env \<Rightarrow> FreeAIAgent \<Rightarrow> string \<Rightarrow> event list \<Rightarrow> (string + FreeAIResponse) \<times> event list" where
  "callLocalAPI h fa prompt w =
     (case json_Marshal h (local_requestBody fa prompt) of
        Inl err \<Rightarrow> (Inl err, w)
      | Inr jsonData \<Rightarrow>
         (case http_Post h (baseURL fa @ ''/generate'') ''application/json'' jsonData w of
            (Inl err, w1) \<Rightarrow> (Inl (''Local API error: '' @ err), w1)
          | (Inr resp, w1) \<Rightarrow>
             (case Body resp of
                Inl err \<Rightarrow> (Inl err, w1)
              | Inr body \<Rightarrow>
                 (case Unmarshal_apiResp h body of
                    Inl err \<Rightarrow> (Inl err, w1)
                  | Inr localResp \<Rightarrow>
                      if Error_api localResp \<noteq> [] then
                        (Inl (''Local API error: '' @ Error_api localResp), w1)
                      else
                        (Inr (unmarshal_aiResponse h (Response localResp)),
                         w1 @ [ParsePlan (Response localResp)])))))"

section \<open>Handling one user request (free\_ai\_integration.go)\<close>

definition GetSystemInfo :: "env \<Rightarrow> event list \<Rightarrow> (string \<rightharpoonup> string) \<times> event list" where
  "GetSystemInfo h w =
     (let info = [''os'' \<mapsto> GOOS h, ''arch'' \<mapsto> GOARCH h, ''version'' \<mapsto> runtime_Version h]
      in if GOOS h = ''darwin'' then
           let r1 = cmd_Output h w ''sw_vers'' [''-productVersion''];
               w1 = w @ [Probe ''sw_vers'' [''-productVersion'']];
               info1 = (case r1 of
                          Inr out \<Rightarrow> info(''macos_version'' \<mapsto> TrimSpace h out)
                        | Inl err \<Rightarrow> info);
               r2 = cmd_Output h w1 ''uname'' [''-m''];
               w2 = w1 @ [Probe ''uname'' [''-m'']];
               info2 = (case r2 of
                          Inr out \<Rightarrow> info1(''machine'' \<mapsto> TrimSpace h out)
                        | Inl err \<Rightarrow> info1)
           in (info2, w2)
         else (info, w))"

text \<open>The verb \<^verbatim>\<open>%s\<close> prints a value missing from the map, a \<^verbatim>\<open>nil\<close> interface, as below.\<close>

definition fmt_s :: "string option \<Rightarrow> string" where
  "fmt_s v = (case v of None \<Rightarrow> ''%!s(<nil>)'' | Some s \<Rightarrow> s)"

text \<open>
  \<^verbatim>\<open>ProcessUserRequest\<close> in four parts: building the prompt (lines 72--94), the switch on
  the service type (lines 99--108), the loop over the commands, and the block around the
  loop (lines 114--121).
\<close>

definition build_prompt :: "env \<Rightarrow> string \<Rightarrow> event list \<Rightarrow> string \<times> event list" where
  "build_prompt h userMessage w =
     (let (systemInfo, w0) = GetSystemInfo h w;
          context = ''Current system: '' @ fmt_s (systemInfo ''os'') @ '' ''
                      @ fmt_s (systemInfo ''arch'') @ '', macOS ''
                      @ fmt_s (systemInfo ''macos_version'');
          prompt = SystemPrompt h @ [CHR 0x0A, CHR 0x0A] @ ''Context: '' @ context
                     @ [CHR 0x0A, CHR 0x0A] @ ''User request: '' @ userMessage
                     @ [CHR 0x0A, CHR 0x0A] @ ResponseFormat h
      in (prompt, w0))"

definition callService ::
  "env \<Rightarrow> FreeAIAgent \<Rightarrow> string \<Rightarrow> event list \<Rightarrow> (string + FreeAIResponse) \<times> event list" where
  "callService h fa prompt w =
     (if serviceType fa = ''ollama'' then callOllama h fa prompt w
      else if serviceType fa = ''huggingface'' then callHuggingFace h fa prompt w
      else if serviceType fa = ''local'' then callLocalAPI h fa prompt w
      else (Inl (''unsupported service type: '' @ serviceType fa), w))"

text \<open>The loop over \<^verbatim>\<open>response.Commands\<close>, appending one result per command.\<close>

fun run_commands ::
  "env \<Rightarrow> Agent \<Rightarrow> CommandRequest list \<Rightarrow> CommandResponse list \<Rightarrow> event list
     \<Rightarrow> CommandResponse list \<times> event list" where
  "run_commands h a [] results w = (results, w)"
| "run_commands h a (cmd # cmds) results w =
     (case ExecuteCommand h a cmd w of
        (result, w') \<Rightarrow> run_commands h a cmds (results @ [result]) w')"

definition execute_plan ::
  "env \<Rightarrow> Agent \<Rightarrow> FreeAIResponse \<Rightarrow> event list \<Rightarrow> FreeAIResponse \<times> event list" where
  "execute_plan h a response w =
     (if length (Commands response) > 0 then
        (case run_commands h a (Commands response) [] w of
           (results, w') \<Rightarrow> (response\<lparr>Results := results\<rparr>, w'))
      else (response, w))"

definition ProcessUserRequest ::
  "env \<Rightarrow> FreeAIAgent \<Rightarrow> string \<Rightarrow> event list \<Rightarrow> (string + FreeAIResponse) \<times> event list" where
  "ProcessUserRequest h fa userMessage w =
     (case build_prompt h userMessage w of
        (prompt, w0) \<Rightarrow>
          (case callService h fa prompt w0 of
             (Inl err, w1) \<Rightarrow> (Inl err, w1)
           | (Inr response, w1) \<Rightarrow>
               (case execute_plan h (agent fa) response w1 of
                  (response', w2) \<Rightarrow> (Inr response', w2))))"

section \<open>Concrete hosts and plans for the scenarios\<close>

definition scenario_plan :: FreeAIResponse where
  "scenario_plan =
     \<lparr>Thoughts = ''print a file, then greet'',
      Commands = [\<lparr>Command = ''cat'', Args = [''/nonexistent''], Timeout = 0\<rparr>,
                  \<lparr>Command = ''echo'', Args = [''hello''], Timeout = 5\<rparr>],
      Explanation = ''cat prints the file and echo prints hello'',
      Confidence = 19 / 20,
      Results = [],
      Error_ai = []\<rparr>"

text \<open>
  A macOS host whose backend answers every request with \<open>scenario_plan\<close>, where \<^verbatim>\<open>cat\<close>
  exits with status 1 and every other command prints \<^verbatim>\<open>hello\<close> and exits with status 0.
\<close>

definition scenario_env :: env where
  "scenario_env =
     \<lparr>GOOS = ''darwin'', GOARCH = ''arm64'', runtime_Version = ''go1.21'',
      cmd_Output = (\<lambda>w name args. if name = ''sw_vers'' then Inr ''14.0'' else Inr ''arm64''),
      TrimSpace = (\<lambda>s. s),
      SystemPrompt = ''You are a helpful AI assistant'',
      ResponseFormat = ''Please respond in valid JSON format'',
      json_Marshal = (\<lambda>v. Inr ''{}''),
      NewRequest_err = (\<lambda>m url. None),
      RoundTrip = (\<lambda>w c rq. Inr \<lparr>StatusCode = 200, Body = Inr ''envelope''\<rparr>),
      Unmarshal_apiResp = (\<lambda>s. Inr \<lparr>Response = ''plan'', Error_api = []\<rparr>),
      Unmarshal_hfResp = (\<lambda>s. Inr [''plan'']),
      Unmarshal_FreeAIResponse =
        (\<lambda>s. if s = ''plan'' then Inr scenario_plan else Inl ''invalid character''),
      CombinedOutput =
        (\<lambda>w name args t.
           if name = ''cat'' then
             \<lparr>pr_output = ''cat: /nonexistent: No such file or directory'',
              pr_err = Some ''exit status 1'', pr_state = Some 1\<rparr>
           else \<lparr>pr_output = ''hello'' @ [CHR 0x0A], pr_err = None, pr_state = Some 0\<rparr>),
      time_Since = (\<lambda>w. ''1ms''),
      time_Now = (\<lambda>w. ''2024-01-01T12:00:00Z'')\<rparr>"

text \<open>The same host without a \<^verbatim>\<open>wget\<close> binary: starting it fails, and no process state exists.\<close>

definition no_wget_env :: env where
  "no_wget_env = scenario_env
     \<lparr>CombinedOutput :=
        (\<lambda>w name args t.
           if name = ''wget'' then
             \<lparr>pr_output = [],
              pr_err = Some (''exec: '' @ [CHR 0x22] @ ''wget'' @ [CHR 0x22]
                              @ '': executable file not found in $PATH''),
              pr_state = None\<rparr>
           else CombinedOutput scenario_env w name args t)\<rparr>"

text \<open>The same host with nothing listening on the backend's port.\<close>

definition refused_env :: env where
  "refused_env = scenario_env
     \<lparr>RoundTrip := (\<lambda>w c rq. Inl ''dial tcp 127.0.0.1:11434: connect: connection refused'')\<rparr>"

definition dq :: string where
  "dq = [CHR 0x22]"



text \<open>
  A backend whose generated text is the JSON object
  \<^verbatim>\<open>{"commands":[],"error":"Invalid JSON response from AI"}\<close>. The field \<^verbatim>\<open>Error\<close> of
  \<^verbatim>\<open>FreeAIResponse\<close> carries the tag \<^verbatim>\<open>json:"error,omitempty"\<close>, so \<^verbatim>\<open>json.Unmarshal\<close> stores
  the value of the key \<^verbatim>\<open>error\<close> in it and returns no error.
\<close>

definition marked_text :: string where
  "marked_text = ''{'' @ dq @ ''commands'' @ dq @ '':[],'' @ dq @ ''error'' @ dq @ '':''
                   @ dq @ ''Invalid JSON response from AI'' @ dq @ ''}''"

definition marked_env :: env where
  "marked_env = scenario_env
     \<lparr>Unmarshal_apiResp := (\<lambda>s. Inr \<lparr>Response = marked_text, Error_api = []\<rparr>),
      Unmarshal_FreeAIResponse :=
        (\<lambda>s. if s = marked_text then
                Inr \<lparr>Thoughts = [], Commands = [], Explanation = [], Confidence = 0,
                     Results = [], Error_ai = ''Invalid JSON response from AI''\<rparr>
              else Inl ''invalid character'')\<rparr>"







section \<open>Reading the trace\<close>

text \<open>
  The commands the executor handed to the operating system, the texts given to the plan
  decoder, and the client timeouts of the HTTP requests sent, each in the order of the
  trace. The probes of \<open>GetSystemInfo\<close> are not commands of a plan and are not listed.
\<close>

fun spawned :: "event list \<Rightarrow> (string \<times> string list) list" where
  "spawned [] = []"
| "spawned (Spawn name args t # es) = (name, args) # spawned es"
| "spawned (e # es) = spawned es"

fun parsed :: "event list \<Rightarrow> string list" where
  "parsed [] = []"
| "parsed (ParsePlan raw # es) = raw # parsed es"
| "parsed (e # es) = parsed es"

fun http_timeouts :: "event list \<Rightarrow> duration list" where
  "http_timeouts [] = []"
| "http_timeouts (Http c rq # es) = client_Timeout c # http_timeouts es"
| "http_timeouts (e # es) = http_timeouts es"

section \<open>Hosts that differ in one respect\<close>


definition with_advice :: "real \<Rightarrow> string \<Rightarrow> env \<Rightarrow> env" where
  "with_advice c t h =
     h\<lparr>Unmarshal_FreeAIResponse :=
         (\<lambda>raw. map_sum id (\<lambda>plan. plan\<lparr>Confidence := c, Thoughts := t\<rparr>)
                   (Unmarshal_FreeAIResponse h raw))\<rparr>"

definition same_actions :: "FreeAIResponse \<Rightarrow> FreeAIResponse \<Rightarrow> bool" where
  "same_actions p q \<longleftrightarrow>
     Commands p = Commands q \<and> Results p = Results q
     \<and> Explanation p = Explanation q \<and> Error_ai p = Error_ai q"

section \<open>The allow-list\<close>

lemma NewAgent_sudo: "\<not> isCommandAllowed NewAgent ''sudo''"
  by (simp add: isCommandAllowed_def NewAgent_def)

lemma NewAgent_empty: "\<not> isCommandAllowed NewAgent []"
  by (simp add: isCommandAllowed_def NewAgent_def)

lemma NewAgent_wget: "isCommandAllowed NewAgent ''wget''"
  by (simp add: isCommandAllowed_def NewAgent_def)



section \<open>Properties of the command executor\<close>

text \<open>
  Claim C1. A request whose command name the allow-list does not hold is rejected before
  anything is handed to the operating system: the trace is returned as it was, and the
  response has \<open>Success = False\<close>, \<open>ExitCode = -1\<close> and an error message that contains the
  rejected name. This holds for every agent, argument list, timeout and host.
\<close>

theorem ExecuteCommand_rejects_unlisted:
  assumes "\<not> isCommandAllowed a (Command req)"
  shows "ExecuteCommand h a req w =
           (\<lparr>Success = False, Output = [],
             Error = ''Command '' @ [CHR 0x27] @ Command req @ [CHR 0x27]
                       @ '' is not allowed for security reasons'',
             ExitCode = - 1, Duration = time_Since h w, Timestamp = time_Now h w\<rparr>, w)
         \<and> sublist (Command req) (Error (fst (ExecuteCommand h a req w)))"
proof -
  have names: "sublist (Command req)
      (''Command '' @ [CHR 0x27] @ Command req @ [CHR 0x27]
         @ '' is not allowed for security reasons'')"
    using sublist_appendI [of "Command req" "''Command '' @ [CHR 0x27]"
        "[CHR 0x27] @ '' is not allowed for security reasons''"]
    by simp
  from assms names show ?thesis
    by (simp add: ExecuteCommand_def)
qed

theorem ExecuteCommand_rejects_unlisted_witness:
  "\<not> isCommandAllowed NewAgent ''sudo''
   \<and> ExecuteCommand scenario_env NewAgent
         \<lparr>Command = ''sudo'', Args = [''whoami''], Timeout = 0\<rparr> [] =
       (\<lparr>Success = False, Output = [],
         Error = ''Command '' @ [CHR 0x27] @ ''sudo'' @ [CHR 0x27]
                   @ '' is not allowed for security reasons'',
         ExitCode = - 1, Duration = ''1ms'', Timestamp = ''2024-01-01T12:00:00Z''\<rparr>, [])
   \<and> \<not> isCommandAllowed NewAgent []
   \<and> snd (ExecuteCommand scenario_env NewAgent \<lparr>Command = [], Args = [], Timeout = 7\<rparr> []) = []"
  using ExecuteCommand_rejects_unlisted
          [of NewAgent "\<lparr>Command = ''sudo'', Args = [''whoami''], Timeout = 0\<rparr>" scenario_env "[]"]
        ExecuteCommand_rejects_unlisted
          [of NewAgent "\<lparr>Command = [], Args = [], Timeout = 7\<rparr>" scenario_env "[]"]
  by (simp add: NewAgent_sudo NewAgent_empty scenario_env_def)

lemma args_or_nil: "(if 0 < length xs then xs else []) = xs"
  by simp

text \<open>What the executor does with an allowed name, for any answer of the host.\<close>

lemma ExecuteCommand_allowed:
  assumes "isCommandAllowed a (Command req)"
    and "t = (if 0 < sint (Timeout req) then Timeout req * Second else 30 * Second)"
    and "r = CombinedOutput h w (Command req) (Args req) t"
    and "w' = w @ [Spawn (Command req) (Args req) t]"
  shows "ExecuteCommand h a req w =
           (\<lparr>Success = (pr_err r = None), Output = pr_output r,
             Error = (case pr_err r of None \<Rightarrow> [] | Some e \<Rightarrow> e),
             ExitCode = ProcessState_ExitCode (pr_state r),
             Duration = time_Since h w', Timestamp = time_Now h w'\<rparr>, w')"
proof (cases "pr_err r")
  case None
  with assms show ?thesis
    unfolding ExecuteCommand_def Let_def args_or_nil by simp
next
  case (Some e)
  with assms show ?thesis
    unfolding ExecuteCommand_def Let_def args_or_nil by simp
qed

text \<open>
  Claim C2. The executor returns a response for every request and has no other way out:
  its one read through a pointer that may be \<^verbatim>\<open>nil\<close>, \<^verbatim>\<open>cmd.ProcessState.ExitCode()\<close>, is
  defined there. Whatever failure the host reports for an allowed command (a binary that
  does not exist, where no process state is left behind, a non-zero exit, a deadline that
  passed), the response carries it as data: \<open>Success = False\<close>, the error's message, the
  captured output, and the exit code, which is \<open>-1\<close> when the process never started.
\<close>

theorem ExecuteCommand_failure_is_data:
  assumes "isCommandAllowed a (Command req)"
    and "CombinedOutput h w (Command req) (Args req)
           (if 0 < sint (Timeout req) then Timeout req * Second else 30 * Second)
         = \<lparr>pr_output = out, pr_err = Some e, pr_state = st\<rparr>"
  shows "fst (ExecuteCommand h a req w) =
           \<lparr>Success = False, Output = out, Error = e,
            ExitCode = (case st of None \<Rightarrow> - 1 | Some c \<Rightarrow> c),
            Duration = time_Since h (snd (ExecuteCommand h a req w)),
            Timestamp = time_Now h (snd (ExecuteCommand h a req w))\<rparr>"
  using assms(2)
  by (simp add: ExecuteCommand_allowed [OF assms(1) refl refl refl] ProcessState_ExitCode_def)

theorem ExecuteCommand_failure_is_data_witness:
  "isCommandAllowed NewAgent ''wget''
   \<and> fst (ExecuteCommand no_wget_env NewAgent
            \<lparr>Command = ''wget'', Args = [''http://example.org''], Timeout = 0\<rparr> []) =
       \<lparr>Success = False, Output = [],
        Error = ''exec: '' @ [CHR 0x22] @ ''wget'' @ [CHR 0x22]
                  @ '': executable file not found in $PATH'',
        ExitCode = - 1, Duration = ''1ms'', Timestamp = ''2024-01-01T12:00:00Z''\<rparr>"
  using ExecuteCommand_failure_is_data
          [of NewAgent "\<lparr>Command = ''wget'', Args = [''http://example.org''], Timeout = 0\<rparr>"
              no_wget_env "[]" "[]"
              "''exec: '' @ [CHR 0x22] @ ''wget'' @ [CHR 0x22]
                 @ '': executable file not found in $PATH''"
              None]
  by (simp add: NewAgent_wget no_wget_env_def scenario_env_def)

subsection \<open>The deadline\<close>

lemma sint_Second: "sint Second = 1000000000"
  by (simp add: Second_def)

text \<open>
  Up to 9223372036 seconds the product \<^verbatim>\<open>time.Duration(req.Timeout) * time.Second\<close> is the
  requested number of seconds; the default is 30 seconds.
\<close>

lemma timeout_in_range:
  assumes "0 < sint T" "sint T \<le> 9223372036"
  shows "sint (T * Second) = sint T * 1000000000"
proof -
  have lo: "- (2 ^ 63) \<le> sint T * 1000000000" using assms by simp
  have "sint T * 1000000000 \<le> 9223372036 * 1000000000"
    using assms by (intro mult_right_mono) simp_all
  then have hi: "sint T * 1000000000 < 2 ^ 63" by simp
  have "sint (T * Second) = signed_take_bit 63 (sint T * sint Second)"
    by (simp add: sint_word_ariths)
  also have "\<dots> = sint T * 1000000000"
    using lo hi by (simp add: sint_Second signed_take_bit_int_eq_self)
  finally show ?thesis .
qed

lemma default_timeout: "sint (30 * Second) = 30000000000"
  by (simp add: Second_def)

text \<open>
  Claim C8. The deadline of an allowed command is \<^verbatim>\<open>req.Timeout\<close> seconds when that is
  positive. The code computes it as a 64-bit count of nanoseconds, and the product wraps
  around from 9223372037 seconds on: for the allowed command \<^verbatim>\<open>ls\<close> with a timeout of
  9223372037 seconds, the duration handed to \<^verbatim>\<open>context.WithTimeout\<close> is negative.
\<close>

theorem ExecuteCommand_timeout_wraps:
  "isCommandAllowed NewAgent ''ls''
   \<and> sint (Timeout \<lparr>Command = ''ls'', Args = [], Timeout = 9223372037\<rparr>) = 9223372037
   \<and> snd (ExecuteCommand scenario_env NewAgent
             \<lparr>Command = ''ls'', Args = [], Timeout = 9223372037\<rparr> [])
       = [Spawn ''ls'' [] (9223372037 * Second)]
   \<and> sint (9223372037 * Second) = - 9223372036709551616"
  by (simp add: ExecuteCommand_def Let_def isCommandAllowed_def NewAgent_def Second_def)

text \<open>Below that bound, and for a timeout that is absent or not positive, it is as claimed.\<close>

lemma ExecuteCommand_deadline_in_range:
  assumes "isCommandAllowed a (Command req)"
  shows "\<exists>t. snd (ExecuteCommand h a req w) = w @ [Spawn (Command req) (Args req) t]
             \<and> (0 < sint (Timeout req) \<and> sint (Timeout req) \<le> 9223372036
                  \<longrightarrow> sint t = sint (Timeout req) * 1000000000)
             \<and> (sint (Timeout req) \<le> 0 \<longrightarrow> sint t = 30000000000)"
  using timeout_in_range [of "Timeout req"]
  by (simp add: ExecuteCommand_allowed [OF assms refl refl refl] default_timeout)

section \<open>Properties of the loop over the plan\<close>

lemma spawned_append: "spawned (u @ v) = spawned u @ spawned v"
  by (induction u rule: spawned.induct) simp_all

lemma parsed_append: "parsed (u @ v) = parsed u @ parsed v"
  by (induction u rule: parsed.induct) simp_all

lemma http_timeouts_append: "http_timeouts (u @ v) = http_timeouts u @ http_timeouts v"
  by (induction u rule: http_timeouts.induct) simp_all


lemma ExecuteCommand_parsed: "parsed (snd (ExecuteCommand h a req w)) = parsed w"
  unfolding ExecuteCommand_def Let_def args_or_nil
  by (simp add: parsed_append)

text \<open>The results collected so far are only ever extended at the end.\<close>

lemma run_commands_acc:
  "run_commands h a cmds acc w =
     (acc @ fst (run_commands h a cmds [] w), snd (run_commands h a cmds [] w))"
proof (induction cmds arbitrary: acc w)
  case Nil
  show ?case by simp
next
  case (Cons c cmds)
  obtain r w' where ex: "ExecuteCommand h a c w = (r, w')" by (cases "ExecuteCommand h a c w")
  show ?case
    using Cons.IH [of "acc @ [r]" w'] Cons.IH [of "[r]" w'] by (simp add: ex)
qed

lemma run_commands_Cons:
  "run_commands h a (c # cmds) [] w =
     (fst (ExecuteCommand h a c w) # fst (run_commands h a cmds [] (snd (ExecuteCommand h a c w))),
      snd (run_commands h a cmds [] (snd (ExecuteCommand h a c w))))"
proof -
  obtain r w' where ex: "ExecuteCommand h a c w = (r, w')" by (cases "ExecuteCommand h a c w")
  show ?thesis using run_commands_acc [of h a cmds "[r]" w'] by (simp add: ex)
qed

declare run_commands.simps(2) [simp del]




lemma run_commands_parsed: "parsed (snd (run_commands h a cmds [] w)) = parsed w"
  by (induction cmds arbitrary: w) (simp_all add: run_commands_Cons ExecuteCommand_parsed)

section \<open>The scenario host, evaluated\<close>


lemma scenario_callOllama:
  "callOllama scenario_env (NewOllamaAgent m) prompt w =
     (Inr scenario_plan,
      w @ [Http DefaultClient
             \<lparr>rq_method = ''POST'', rq_url = ''http://localhost:11434/api/generate'',
              rq_header = [(''Content-Type'', ''application/json'')], rq_body = ''{}''\<rparr>,
           ParsePlan ''plan''])"
  by (simp add: callOllama_def http_Post_def NewRequest_def Header_Set_def client_Do_def
      unmarshal_aiResponse_def scenario_env_def NewOllamaAgent_def NewFreeAIAgent_def)

lemma scenario_callLocalAPI:
  "callLocalAPI scenario_env (NewLocalAgent ''http://localhost:8080'' m) prompt w =
     (Inr scenario_plan,
      w @ [Http DefaultClient
             \<lparr>rq_method = ''POST'', rq_url = ''http://localhost:8080/generate'',
              rq_header = [(''Content-Type'', ''application/json'')], rq_body = ''{}''\<rparr>,
           ParsePlan ''plan''])"
  by (simp add: callLocalAPI_def http_Post_def NewRequest_def Header_Set_def client_Do_def
      unmarshal_aiResponse_def scenario_env_def NewLocalAgent_def NewFreeAIAgent_def)

lemma scenario_callHuggingFace:
  "callHuggingFace scenario_env (NewHuggingFaceAgent ''hf_key'' ''gpt2'') prompt w =
     (Inr scenario_plan,
      w @ [Http \<lparr>client_Timeout = 30 * Second\<rparr>
             \<lparr>rq_method = ''POST'',
              rq_url = ''https://api-inference.huggingface.co/models/gpt2'',
              rq_header = [(''Authorization'', ''Bearer hf_key''),
                           (''Content-Type'', ''application/json'')],
              rq_body = ''{}''\<rparr>,
           ParsePlan ''plan''])"
  by (simp add: callHuggingFace_def NewRequest_def Header_Set_def client_Do_def Let_def
      unmarshal_aiResponse_def scenario_env_def NewHuggingFaceAgent_def NewFreeAIAgent_def)


lemma refused_callService:
  "callService refused_env (NewOllamaAgent m) prompt w =
     (Inl ''Ollama API error: dial tcp 127.0.0.1:11434: connect: connection refused'',
      w @ [Http DefaultClient
             \<lparr>rq_method = ''POST'', rq_url = ''http://localhost:11434/api/generate'',
              rq_header = [(''Content-Type'', ''application/json'')], rq_body = ''{}''\<rparr>])"
  by (simp add: callService_def callOllama_def http_Post_def NewRequest_def Header_Set_def
      client_Do_def refused_env_def scenario_env_def NewOllamaAgent_def NewFreeAIAgent_def)

lemma refused_prompt:
  "build_prompt refused_env msg [] =
     (fst (build_prompt refused_env msg []),
      [Probe ''sw_vers'' [''-productVersion''], Probe ''uname'' [''-m'']])"
  by (simp add: build_prompt_def GetSystemInfo_def Let_def refused_env_def scenario_env_def)




section \<open>Properties of handling one request\<close>







text \<open>A plan without commands is returned as the backend call produced it.\<close>

lemma ProcessUserRequest_empty_plan:
  assumes "build_prompt h userMessage w = (prompt, w0)"
    and "callService h fa prompt w0 = (Inr plan, w1)"
    and "Commands plan = []"
  shows "ProcessUserRequest h fa userMessage w = (Inr plan, w1)"
  using assms by (simp add: ProcessUserRequest_def execute_plan_def)

text \<open>
  Claim C9. The execution block reads the commands of the plan and nothing else of it:
  for a plan and the same plan with any other confidence (zero included) and any other
  thoughts, it hands the same commands to the host, leaves the same trace and collects
  the same results.
\<close>

theorem execute_plan_ignores_confidence_and_thoughts:
  "execute_plan h a (plan\<lparr>Confidence := c, Thoughts := t\<rparr>) w =
     (case execute_plan h a plan w of
        (response, w') \<Rightarrow> (response\<lparr>Confidence := c, Thoughts := t\<rparr>, w'))"
  by (simp add: execute_plan_def split: prod.splits)

text \<open>
  The same holds for a whole request: if the plan decoder of the host reported another
  confidence and other thoughts, the request would leave the same trace and return the
  same error, or a response with the same commands and the same results.
\<close>

lemma with_advice_fields:
  "GOOS (with_advice c t h) = GOOS h"
  "GOARCH (with_advice c t h) = GOARCH h"
  "runtime_Version (with_advice c t h) = runtime_Version h"
  "cmd_Output (with_advice c t h) = cmd_Output h"
  "TrimSpace (with_advice c t h) = TrimSpace h"
  "SystemPrompt (with_advice c t h) = SystemPrompt h"
  "ResponseFormat (with_advice c t h) = ResponseFormat h"
  "json_Marshal (with_advice c t h) = json_Marshal h"
  "NewRequest_err (with_advice c t h) = NewRequest_err h"
  "RoundTrip (with_advice c t h) = RoundTrip h"
  "Unmarshal_apiResp (with_advice c t h) = Unmarshal_apiResp h"
  "Unmarshal_hfResp (with_advice c t h) = Unmarshal_hfResp h"
  "CombinedOutput (with_advice c t h) = CombinedOutput h"
  "time_Since (with_advice c t h) = time_Since h"
  "time_Now (with_advice c t h) = time_Now h"
  by (simp_all add: with_advice_def)

lemma with_advice_sel:
  "NewRequest (with_advice c t h) = NewRequest h"
  "client_Do (with_advice c t h) = client_Do h"
  "ExecuteCommand (with_advice c t h) = ExecuteCommand h"
  "GetSystemInfo (with_advice c t h) = GetSystemInfo h"
  unfolding NewRequest_def client_Do_def ExecuteCommand_def GetSystemInfo_def with_advice_fields
  by (rule refl)+

lemma http_Post_with_advice: "http_Post (with_advice c t h) = http_Post h"
  unfolding http_Post_def with_advice_sel by (rule refl)

lemma build_prompt_with_advice: "build_prompt (with_advice c t h) = build_prompt h"
  unfolding build_prompt_def with_advice_sel with_advice_fields by (rule refl)

lemma run_commands_with_advice:
  "run_commands (with_advice c t h) a cmds acc w = run_commands h a cmds acc w"
  by (induction cmds arbitrary: acc w)
     (simp_all add: run_commands.simps(2) with_advice_sel split: prod.splits)

lemma unmarshal_with_advice:
  "same_actions (unmarshal_aiResponse (with_advice c t h) raw) (unmarshal_aiResponse h raw)"
  by (simp add: with_advice_def unmarshal_aiResponse_def same_actions_def split: sum.splits)

lemma callOllama_with_advice:
  "rel_prod (rel_sum (=) same_actions) (=)
     (callOllama (with_advice c t h) fa prompt w) (callOllama h fa prompt w)"
  unfolding callOllama_def with_advice_sel with_advice_fields http_Post_with_advice
  by (auto simp: unmarshal_with_advice split: sum.splits prod.splits)

lemma callLocalAPI_with_advice:
  "rel_prod (rel_sum (=) same_actions) (=)
     (callLocalAPI (with_advice c t h) fa prompt w) (callLocalAPI h fa prompt w)"
  unfolding callLocalAPI_def with_advice_sel with_advice_fields http_Post_with_advice
  by (auto simp: unmarshal_with_advice split: sum.splits prod.splits)

lemma callHuggingFace_with_advice:
  "rel_prod (rel_sum (=) same_actions) (=)
     (callHuggingFace (with_advice c t h) fa prompt w) (callHuggingFace h fa prompt w)"
  unfolding callHuggingFace_def with_advice_sel with_advice_fields Let_def
  by (auto simp: unmarshal_with_advice split: sum.splits prod.splits list.splits)

lemma callService_with_advice:
  "rel_prod (rel_sum (=) same_actions) (=)
     (callService (with_advice c t h) fa prompt w) (callService h fa prompt w)"
  by (simp add: callService_def callOllama_with_advice callLocalAPI_with_advice
      callHuggingFace_with_advice)

lemma execute_plan_same_actions:
  assumes "same_actions p q"
  shows "rel_prod same_actions (=)
           (execute_plan (with_advice c t h) a p w) (execute_plan h a q w)"
  using assms
  by (auto simp: execute_plan_def same_actions_def run_commands_with_advice split: prod.splits)

lemma ProcessUserRequest_with_advice:
  "rel_prod (rel_sum (=) same_actions) (=)
     (ProcessUserRequest (with_advice c t h) fa userMessage w)
     (ProcessUserRequest h fa userMessage w)"
proof -
  obtain prompt w0 where bp: "build_prompt h userMessage w = (prompt, w0)"
    by (cases "build_prompt h userMessage w")
  obtain r w1 where cs: "callService h fa prompt w0 = (r, w1)"
    by (cases "callService h fa prompt w0")
  obtain r' where cs': "callService (with_advice c t h) fa prompt w0 = (r', w1)"
    and rel: "rel_sum (=) same_actions r' r"
    using callService_with_advice [of c t h fa prompt w0] cs
    by (cases "callService (with_advice c t h) fa prompt w0") auto
  show ?thesis
  proof (cases r)
    case (Inl e)
    with rel have "r' = Inl e" by (cases r') auto
    with Inl bp cs cs' show ?thesis
      by (simp add: ProcessUserRequest_def build_prompt_with_advice)
  next
    case (Inr q)
    with rel obtain p where p: "r' = Inr p" "same_actions p q" by (cases r') auto
    from execute_plan_same_actions [OF p(2), of c t h "agent fa" w1]
    show ?thesis
      using Inr p bp cs cs'
      by (auto simp: ProcessUserRequest_def build_prompt_with_advice split: prod.splits)
  qed
qed

subsection \<open>A backend call that fails\<close>

lemma client_Do_trace:
  "client_Do h c rq w = (r, w1) \<Longrightarrow> spawned w1 = spawned w \<and> parsed w1 = parsed w"
  by (auto simp: client_Do_def spawned_append parsed_append)

lemma http_Post_trace:
  "http_Post h url ct body w = (r, w1) \<Longrightarrow> spawned w1 = spawned w \<and> parsed w1 = parsed w"
  by (auto simp: http_Post_def split: sum.splits dest: client_Do_trace)

lemma callOllama_failure_trace:
  assumes "callOllama h fa prompt w = (Inl err, w1)"
  shows "spawned w1 = spawned w \<and> parsed w1 = parsed w"
  using assms
  by (auto simp: callOllama_def split: sum.splits prod.splits if_splits dest: http_Post_trace)

lemma callLocalAPI_failure_trace:
  assumes "callLocalAPI h fa prompt w = (Inl err, w1)"
  shows "spawned w1 = spawned w \<and> parsed w1 = parsed w"
  using assms
  by (auto simp: callLocalAPI_def split: sum.splits prod.splits if_splits dest: http_Post_trace)

lemma callHuggingFace_failure_trace:
  assumes "callHuggingFace h fa prompt w = (Inl err, w1)"
  shows "spawned w1 = spawned w \<and> parsed w1 = parsed w"
  using assms
  by (auto simp: callHuggingFace_def Let_def
      split: sum.splits prod.splits if_splits list.splits dest: client_Do_trace)

lemma callService_failure_trace:
  assumes "callService h fa prompt w = (Inl err, w1)"
  shows "spawned w1 = spawned w \<and> parsed w1 = parsed w"
  using assms callOllama_failure_trace callLocalAPI_failure_trace callHuggingFace_failure_trace
  by (auto simp: callService_def split: if_splits)

lemma build_prompt_trace:
  "spawned (snd (build_prompt h msg w)) = spawned w
   \<and> parsed (snd (build_prompt h msg w)) = parsed w"
  by (simp add: build_prompt_def GetSystemInfo_def Let_def spawned_append parsed_append)

text \<open>
  Claim C5. If the backend call fails, the request handler returns that error and no
  response, so there are no results; up to that point nothing has been handed to the plan
  decoder and no command of a plan to the operating system.
\<close>

theorem ProcessUserRequest_backend_failure:
  assumes "build_prompt h userMessage w = (prompt, w0)"
    and "callService h fa prompt w0 = (Inl err, w1)"
  shows "ProcessUserRequest h fa userMessage w = (Inl err, w1)
         \<and> spawned w1 = spawned w \<and> parsed w1 = parsed w"
proof -
  have "ProcessUserRequest h fa userMessage w = (Inl err, w1)"
    using assms by (simp add: ProcessUserRequest_def)
  moreover have "spawned w0 = spawned w \<and> parsed w0 = parsed w"
    using build_prompt_trace [of h userMessage w] assms(1) by simp
  ultimately show ?thesis
    using callService_failure_trace [OF assms(2)] by simp
qed

theorem ProcessUserRequest_backend_failure_witness:
  "build_prompt refused_env ''list files'' [] =
     (fst (build_prompt refused_env ''list files'' []),
      [Probe ''sw_vers'' [''-productVersion''], Probe ''uname'' [''-m'']])
   \<and> callService refused_env (NewOllamaAgent ''llama3.2'')
       (fst (build_prompt refused_env ''list files'' []))
       [Probe ''sw_vers'' [''-productVersion''], Probe ''uname'' [''-m'']]
     = (Inl ''Ollama API error: dial tcp 127.0.0.1:11434: connect: connection refused'',
        [Probe ''sw_vers'' [''-productVersion''], Probe ''uname'' [''-m''],
         Http DefaultClient
           \<lparr>rq_method = ''POST'', rq_url = ''http://localhost:11434/api/generate'',
            rq_header = [(''Content-Type'', ''application/json'')], rq_body = ''{}''\<rparr>])
   \<and> ProcessUserRequest refused_env (NewOllamaAgent ''llama3.2'') ''list files'' []
     = (Inl ''Ollama API error: dial tcp 127.0.0.1:11434: connect: connection refused'',
        [Probe ''sw_vers'' [''-productVersion''], Probe ''uname'' [''-m''],
         Http DefaultClient
           \<lparr>rq_method = ''POST'', rq_url = ''http://localhost:11434/api/generate'',
            rq_header = [(''Content-Type'', ''application/json'')], rq_body = ''{}''\<rparr>])
   \<and> spawned (snd (ProcessUserRequest refused_env (NewOllamaAgent ''llama3.2'')
                      ''list files'' [])) = []
   \<and> parsed (snd (ProcessUserRequest refused_env (NewOllamaAgent ''llama3.2'')
                     ''list files'' [])) = []"
proof -
  let ?w0 = "[Probe ''sw_vers'' [''-productVersion''], Probe ''uname'' [''-m'']]"
  let ?rq = "\<lparr>rq_method = ''POST'', rq_url = ''http://localhost:11434/api/generate'',
              rq_header = [(''Content-Type'', ''application/json'')], rq_body = ''{}''\<rparr>"
  have prompt: "build_prompt refused_env ''list files'' [] =
                  (fst (build_prompt refused_env ''list files'' []), ?w0)"
    by (rule refused_prompt)
  have call: "callService refused_env (NewOllamaAgent ''llama3.2'')
                (fst (build_prompt refused_env ''list files'' [])) ?w0
              = (Inl ''Ollama API error: dial tcp 127.0.0.1:11434: connect: connection refused'',
                 ?w0 @ [Http DefaultClient ?rq])"
    by (rule refused_callService)
  from ProcessUserRequest_backend_failure [OF prompt call] prompt call
  show ?thesis by simp
qed

section \<open>Properties of decoding the backend's answer\<close>

text \<open>
  Claim C3, as stated, fails on the text of the fallback: for the text
  \<^verbatim>\<open>not json at all\<close>, which the decoder rejects, the thoughts of the returned plan are not
  \<^verbatim>\<open>Failed to parse AI response as structured output\<close>.
\<close>

theorem unmarshal_aiResponse_reasoning_counterexample:
  "Unmarshal_FreeAIResponse scenario_env ''not json at all'' = Inl ''invalid character''
   \<and> Thoughts (unmarshal_aiResponse scenario_env ''not json at all'')
       \<noteq> ''Failed to parse AI response as structured output''"
  by (simp add: unmarshal_aiResponse_def scenario_env_def)

text \<open>
  Claim C3, amended. Decoding the backend's text into a plan always yields a plan. For
  every text the decoder rejects, the plan has no commands, confidence 0, the thoughts
  \<^verbatim>\<open>Failed to parse AI response as JSON\<close>, and the text itself as its explanation.
\<close>

theorem unmarshal_aiResponse_degrades:
  assumes "Unmarshal_FreeAIResponse h raw = Inl err"
  shows "Commands (unmarshal_aiResponse h raw) = []
         \<and> Confidence (unmarshal_aiResponse h raw) = 0
         \<and> Thoughts (unmarshal_aiResponse h raw) = ''Failed to parse AI response as JSON''
         \<and> Explanation (unmarshal_aiResponse h raw) = raw"
  using assms by (simp add: unmarshal_aiResponse_def)

theorem unmarshal_aiResponse_degrades_witness:
  "Unmarshal_FreeAIResponse scenario_env ''not json at all'' = Inl ''invalid character''
   \<and> Commands (unmarshal_aiResponse scenario_env ''not json at all'') = []
   \<and> Confidence (unmarshal_aiResponse scenario_env ''not json at all'') = 0
   \<and> Thoughts (unmarshal_aiResponse scenario_env ''not json at all'')
       = ''Failed to parse AI response as JSON''
   \<and> Explanation (unmarshal_aiResponse scenario_env ''not json at all'') = ''not json at all''"
  using unmarshal_aiResponse_degrades [of scenario_env "''not json at all''" "''invalid character''"]
  by (simp add: scenario_env_def)

text \<open>
  Claim C10, as stated, fails on a text that decodes: the JSON object
  \<^verbatim>\<open>{"commands":[],"error":"Invalid JSON response from AI"}\<close> is a plan without commands
  whose error field is not empty and equals the marker of a failed decoding.
\<close>

theorem error_marker_counterexample:
  "Unmarshal_FreeAIResponse marked_env marked_text =
     Inr \<lparr>Thoughts = [], Commands = [], Explanation = [], Confidence = 0,
          Results = [], Error_ai = ''Invalid JSON response from AI''\<rparr>
   \<and> Commands (unmarshal_aiResponse marked_env marked_text) = []
   \<and> Error_ai (unmarshal_aiResponse marked_env marked_text) = ''Invalid JSON response from AI''"
  by (simp add: unmarshal_aiResponse_def marked_env_def)

text \<open>
  Claim C10, amended. A plan returned for a text the decoder rejects has the error field
  \<^verbatim>\<open>Invalid JSON response from AI\<close>. A plan returned for a text that decodes is the decoded
  plan, untouched: its error field is what the text gave under the key \<^verbatim>\<open>error\<close>.
\<close>

theorem unmarshal_aiResponse_error_marker:
  "(\<forall>err. Unmarshal_FreeAIResponse h raw = Inl err \<longrightarrow>
           Error_ai (unmarshal_aiResponse h raw) = ''Invalid JSON response from AI'')
   \<and> (\<forall>plan. Unmarshal_FreeAIResponse h raw = Inr plan \<longrightarrow>
           unmarshal_aiResponse h raw = plan)"
  by (simp add: unmarshal_aiResponse_def)

theorem unmarshal_aiResponse_error_marker_witness:
  "Unmarshal_FreeAIResponse scenario_env ''not json at all'' = Inl ''invalid character''
   \<and> Error_ai (unmarshal_aiResponse scenario_env ''not json at all'')
       = ''Invalid JSON response from AI''
   \<and> Unmarshal_FreeAIResponse scenario_env ''plan'' = Inr scenario_plan
   \<and> unmarshal_aiResponse scenario_env ''plan'' = scenario_plan
   \<and> Error_ai scenario_plan = []"
  using unmarshal_aiResponse_error_marker [of scenario_env "''not json at all''"]
        unmarshal_aiResponse_error_marker [of scenario_env "''plan''"]
  by (simp add: scenario_env_def scenario_plan_def)

section \<open>Properties of the backend calls\<close>

subsection \<open>The timeout of the HTTP request\<close>

lemma client_Do_timeouts:
  "client_Do h c rq w = (r, w1) \<Longrightarrow> http_timeouts w1 = http_timeouts w @ [client_Timeout c]"
  by (auto simp: client_Do_def http_timeouts_append)

lemma http_Post_timeouts:
  "http_Post h url ct body w = (r, w1) \<Longrightarrow>
   http_timeouts w1 = http_timeouts w \<or> http_timeouts w1 = http_timeouts w @ [0]"
  by (auto simp: http_Post_def DefaultClient_def split: sum.splits dest: client_Do_timeouts)

text \<open>
  On every host, a request of \<open>callOllama\<close> or \<open>callLocalAPI\<close> is sent with the timeout 0,
  which for \<^verbatim>\<open>http.Client\<close> means none, and a request of \<open>callHuggingFace\<close> with 30 seconds.
\<close>

lemma callOllama_timeouts:
  "http_timeouts (snd (callOllama h fa prompt w)) = http_timeouts w
   \<or> http_timeouts (snd (callOllama h fa prompt w)) = http_timeouts w @ [0]"
  by (auto simp: callOllama_def http_timeouts_append
      split: sum.splits prod.splits if_splits dest: http_Post_timeouts)

lemma callLocalAPI_timeouts:
  "http_timeouts (snd (callLocalAPI h fa prompt w)) = http_timeouts w
   \<or> http_timeouts (snd (callLocalAPI h fa prompt w)) = http_timeouts w @ [0]"
  by (auto simp: callLocalAPI_def http_timeouts_append
      split: sum.splits prod.splits if_splits dest: http_Post_timeouts)

lemma callHuggingFace_timeouts:
  "http_timeouts (snd (callHuggingFace h fa prompt w)) = http_timeouts w
   \<or> http_timeouts (snd (callHuggingFace h fa prompt w)) = http_timeouts w @ [30 * Second]"
  by (auto simp: callHuggingFace_def http_timeouts_append Let_def
      split: sum.splits prod.splits if_splits list.splits dest: client_Do_timeouts)

text \<open>
  Claim C6. Every backend variant sends its HTTP request under a fixed timeout of about
  30 seconds. On the scenario host, the request of \<open>callHuggingFace\<close> is sent by a client
  with a timeout of 30 seconds, and the requests of \<open>callOllama\<close> and \<open>callLocalAPI\<close> by
  the default client, whose timeout is zero: no timeout.
\<close>

theorem only_callHuggingFace_sets_a_timeout:
  "http_timeouts (snd (callOllama scenario_env (NewOllamaAgent ''llama3.2'') ''list files'' []))
     = [0]
   \<and> http_timeouts (snd (callLocalAPI scenario_env
        (NewLocalAgent ''http://localhost:8080'' ''default'') ''list files'' [])) = [0]
   \<and> map sint (http_timeouts (snd (callHuggingFace scenario_env
        (NewHuggingFaceAgent ''hf_key'' ''gpt2'') ''list files'' []))) = [30000000000]"
  by (simp add: scenario_callOllama scenario_callLocalAPI scenario_callHuggingFace
      DefaultClient_def Second_def)

subsection \<open>When a backend call fails\<close>



















end
